theory Spec2Isabelle
  imports Main
begin

section \<open>Python values, exceptions and strings\<close>

text \<open>
  A Python \<^verbatim>\<open>str\<close> is modelled as a \<^typ>\<open>string\<close>: the UTF-8 bytes of the text.
  The non-ASCII prefixes of the answers are written out as their bytes.
  Exceptions are values: every constructor of \<open>py_exception\<close> stands for a subclass
  of Python's \<^verbatim>\<open>Exception\<close> and carries the text that \<^verbatim>\<open>str(e)\<close> returns.
\<close>

datatype py_exception =
    ValueError string
  | IndexError string
  | AttributeError string
  | TypeError string
  | OSError string
  | ResponseError string
  | ConnectionError string
  | McpError string
  | RuntimeError string

fun str_exception :: "py_exception \<Rightarrow> string" where
  "str_exception (ValueError s) = s"
| "str_exception (IndexError s) = s"
| "str_exception (AttributeError s) = s"
| "str_exception (TypeError s) = s"
| "str_exception (OSError s) = s"
| "str_exception (ResponseError s) = s"
| "str_exception (ConnectionError s) = s"
| "str_exception (McpError s) = s"
| "str_exception (RuntimeError s) = s"

text \<open>Values as \<^verbatim>\<open>json.loads\<close> builds them: \<open>JNull\<close> is \<^verbatim>\<open>None\<close>, a number keeps
  its lexeme, an object is a \<^verbatim>\<open>dict\<close> in insertion order.\<close>

datatype json =
    JNull
  | JBool bool
  | JNumber string
  | JString string
  | JArray "json list"
  | JObject "(string \<times> json) list"

text \<open>\<^verbatim>\<open>str(n)\<close> for an \<^verbatim>\<open>int\<close>.\<close>

function str_nat :: "nat \<Rightarrow> string" where
  "str_nat n = (if n < 10 then [''0123456789'' ! n]
                else str_nat (n div 10) @ [''0123456789'' ! (n mod 10)])"
  by pat_completeness auto
termination
  by (relation "measure (\<lambda>n. n)") auto

definition str_int :: "int \<Rightarrow> string" where
  "str_int i = (if i < 0 then CHR ''-'' # str_nat (nat (- i)) else str_nat (nat i))"

text \<open>\<^verbatim>\<open>xs[i:]\<close>: a negative start counts from the end, and is clipped at 0.\<close>

definition py_slice_from :: "'a list \<Rightarrow> int \<Rightarrow> 'a list" where
  "py_slice_from xs i =
     (if i < 0 then drop (nat (int (length xs) + i)) xs else drop (nat i) xs)"

section \<open>Conversation memory (ai_model_lib.py)\<close>

record turn =
  role :: string
  content :: string

text \<open>The memory file: absent, holding a snapshot, or failing to read
  (any exception of \<^verbatim>\<open>open\<close>/\<^verbatim>\<open>json.load\<close> other than \<^verbatim>\<open>FileNotFoundError\<close>).
  \<open>write_fault\<close> is the exception that opening the file for writing raises, if any.\<close>

datatype file_state = Missing | Snapshot "turn list" | Unreadable py_exception

record store =
  memory_file :: file_state
  write_fault :: "py_exception option"

definition write_memory :: "store \<Rightarrow> turn list \<Rightarrow> py_exception + store" where
  "write_memory st ts =
     (case write_fault st of
        Some e \<Rightarrow> Inl e
      | None \<Rightarrow> Inr (st\<lparr>memory_file := Snapshot ts\<rparr>))"

record aimodel =
  model_name :: string
  system_instruction :: string
  avaliable_functions :: "string list"
  history :: "turn list"
  max_history_length :: int

definition size_of_memory :: "aimodel \<Rightarrow> int" where
  "size_of_memory m = int (length (history m))"

text \<open>\<^verbatim>\<open>AIModel.load_memory\<close>. A write that fails while truncating is caught by the
  \<^verbatim>\<open>except Exception\<close> clause (result \<open>False\<close>); a write that fails inside the
  \<^verbatim>\<open>except FileNotFoundError\<close> handler is raised to the caller.\<close>

definition load_memory :: "aimodel \<Rightarrow> store \<Rightarrow> (py_exception + bool) \<times> aimodel \<times> store" where
  "load_memory m st =
     (case memory_file st of
        Snapshot ts \<Rightarrow>
          (let m1 = m\<lparr>history := ts\<rparr> in
           if size_of_memory m1 > max_history_length m1 then
             (let m2 = m1\<lparr>history := py_slice_from (history m1) (- max_history_length m1)\<rparr> in
              case write_memory st (history m2) of
                Inr st' \<Rightarrow> (Inr True, m2, st')
              | Inl e \<Rightarrow> (Inr False, m2, st))
           else (Inr True, m1, st))
      | Missing \<Rightarrow>
          (let m1 = m\<lparr>history := []\<rparr> in
           case write_memory st [] of
             Inr st' \<Rightarrow> (Inr True, m1, st')
           | Inl e \<Rightarrow> (Inl e, m1, st))
      | Unreadable e \<Rightarrow> (Inr False, m, st))"

text \<open>The reply of the model runtime to \<^verbatim>\<open>client.chat\<close>, as far as the code reads it.\<close>

record chat_response =
  message_content :: string
  message_tool_calls :: "(string \<times> json) list"
  eval_count :: int

text \<open>The model runtime: \<^verbatim>\<open>client.chat(model, messages, tools)\<close> and
  \<^verbatim>\<open>client.generate(model, prompt, system)\<close>, each returning or raising.\<close>

record client =
  client_chat :: "string \<Rightarrow> turn list \<Rightarrow> string list \<Rightarrow> py_exception + chat_response"
  client_generate :: "string \<Rightarrow> string \<Rightarrow> string \<Rightarrow> py_exception + string"

text \<open>\<^verbatim>\<open>[self.history[0]] + self.history[-(self.max_history_length-1):]\<close>\<close>

definition truncate_history :: "turn list \<Rightarrow> int \<Rightarrow> py_exception + turn list" where
  "truncate_history h n =
     (case h of
        [] \<Rightarrow> Inl (IndexError ''list index out of range'')
      | t # _ \<Rightarrow> Inr (t # py_slice_from h (- (n - 1))))"

text \<open>The \<^verbatim>\<open>try\<close> block of \<^verbatim>\<open>AIModel.chat\<close> after the reply has arrived: the token
  count is written into the turn at index 1, the assistant turn is appended, the
  history is truncated and saved.\<close>

definition record_reply :: "aimodel \<Rightarrow> store \<Rightarrow> chat_response \<Rightarrow> (py_exception + string) \<times> aimodel \<times> store" where
  "record_reply m st r =
     (let assistant_message = message_content r;
          h1 = (if length (history m) > 1
                then (history m)[1 := (history m ! 1)\<lparr>content := str_int (eval_count r)\<rparr>]
                else history m);
          h2 = h1 @ [\<lparr>role = ''assistant'', content = assistant_message\<rparr>];
          m2 = m\<lparr>history := h2\<rparr>
      in if size_of_memory m2 > max_history_length m2 then
           (case truncate_history h2 (max_history_length m2) of
              Inl e \<Rightarrow> (Inr ''Error: Failed to get response from model'', m2, st)
            | Inr h3 \<Rightarrow>
                (let m3 = m2\<lparr>history := h3\<rparr> in
                 case write_memory st h3 of
                   Inl e \<Rightarrow> (Inr ''Error: Failed to get response from model'', m3, st)
                 | Inr st' \<Rightarrow> (Inr assistant_message, m3, st')))
         else
           (case write_memory st h2 of
              Inl e \<Rightarrow> (Inr ''Error: Failed to get response from model'', m2, st)
            | Inr st' \<Rightarrow> (Inr assistant_message, m2, st')))"

text \<open>\<^verbatim>\<open>AIModel.chat(message, isCallTool)\<close>.\<close>

definition chat :: "client \<Rightarrow> aimodel \<Rightarrow> store \<Rightarrow> string \<Rightarrow> bool \<Rightarrow> (py_exception + string) \<times> aimodel \<times> store" where
  "chat cl m st message isCallTool =
     (if message = [] then (Inl (ValueError ''Messages string cannot be empty.''), m, st)
      else if isCallTool \<and> history m = []
      then (Inl (IndexError ''list assignment index out of range''), m, st)
      else
        (let m0 = (if isCallTool
                   then m\<lparr>history := butlast (history m) @ [\<lparr>role = ''assistant'', content = message\<rparr>]\<rparr>
                   else m)
         in case load_memory m0 st of
              (Inl e, m1, st1) \<Rightarrow> (Inl e, m1, st1)
            | (Inr _, m1, st1) \<Rightarrow>
                (let has_system_role = list_ex (\<lambda>msg. role msg = ''system'') (history m1);
                     h2 = (if \<not> has_system_role
                           then \<lparr>role = ''system'', content = system_instruction m1\<rparr> # history m1
                           else history m1);
                     h3 = h2 @ [\<lparr>role = ''user'', content = message\<rparr>];
                     m3 = m1\<lparr>history := h3\<rparr>
                 in case client_chat cl (model_name m3) h3 (avaliable_functions m3) of
                      Inl e \<Rightarrow> (Inl e, m3, st1)
                    | Inr r \<Rightarrow> record_reply m3 st1 r)))"

section \<open>String operations and the regular expressions of handle_json_fields\<close>

text \<open>\<^verbatim>\<open>str.isspace\<close> and the class \<^verbatim>\<open>\s\<close> on the ASCII range: tab, line feed, vertical
  tab, form feed, carriage return, the separators 0x1C to 0x1F and the space.\<close>

definition py_isspace :: "char \<Rightarrow> bool" where
  "py_isspace c = (c \<in> set [CHR 0x09, CHR 0x0A, CHR 0x0B, CHR 0x0C, CHR 0x0D,
                              CHR 0x1C, CHR 0x1D, CHR 0x1E, CHR 0x1F, CHR 0x20])"

definition strip :: "string \<Rightarrow> string" where
  "strip s = rev (dropWhile py_isspace (rev (dropWhile py_isspace s)))"

fun startswith :: "string \<Rightarrow> string \<Rightarrow> bool" where
  "startswith [] s = True"
| "startswith (p # ps) [] = False"
| "startswith (p # ps) (c # cs) = (p = c \<and> startswith ps cs)"

text \<open>\<^verbatim>\<open>sub in s\<close>\<close>

fun contains :: "string \<Rightarrow> string \<Rightarrow> bool" where
  "contains sub [] = (sub = [])"
| "contains sub (c # cs) = (startswith sub (c # cs) \<or> contains sub cs)"

text \<open>The text before and after the first occurrence of \<open>sub\<close>.\<close>

fun split_at :: "string \<Rightarrow> string \<Rightarrow> (string \<times> string) option" where
  "split_at sub [] = (if sub = [] then Some ([], []) else None)"
| "split_at sub (c # cs) =
     (if startswith sub (c # cs) then Some ([], drop (length sub) (c # cs))
      else (case split_at sub cs of
              None \<Rightarrow> None
            | Some (before, after) \<Rightarrow> Some (c # before, after)))"

definition py_lower :: "string \<Rightarrow> string" where
  "py_lower s =
     map (\<lambda>c. if (65::nat) \<le> of_char c \<and> of_char c \<le> (90::nat)
              then char_of (of_char c + (32::nat)) else c) s"

definition tool_name_key :: string where
  \<open>tool_name_key = ''"tool_name"''\<close>

definition query_key :: string where
  \<open>query_key = ''"query"''\<close>

definition fence :: string where
  "fence = ''```''"

text \<open>\<^verbatim>\<open>re.search(r'\{[^{}]*"tool_name"[^{}]*\}', text, re.DOTALL)\<close>: a match that starts
  at a \<open>{\<close> runs to the next brace, which must be a \<open>}\<close>, and the characters in
  between must hold the key; the leftmost such \<open>{\<close> wins. The result is group 0.\<close>

fun search_json_pattern :: "string \<Rightarrow> string option" where
  "search_json_pattern [] = None"
| "search_json_pattern (c # cs) =
     (if c = CHR ''{'' then
        (let inner = takeWhile (\<lambda>x. x \<noteq> CHR ''{'' \<and> x \<noteq> CHR ''}'') cs in
         case dropWhile (\<lambda>x. x \<noteq> CHR ''{'' \<and> x \<noteq> CHR ''}'') cs of
           d # _ \<Rightarrow> if d = CHR ''}'' \<and> contains tool_name_key inner
                    then Some (c # inner @ [d])
                    else search_json_pattern cs
         | [] \<Rightarrow> search_json_pattern cs)
      else search_json_pattern cs)"

text \<open>\<^verbatim>\<open>re.search(r'\{[^}]*"tool_name"[^}]*\}', text, re.DOTALL)\<close>: as above, but the
  span runs to the first \<open>}\<close> and may cross a \<open>{\<close>.\<close>

fun search_flexible_pattern :: "string \<Rightarrow> string option" where
  "search_flexible_pattern [] = None"
| "search_flexible_pattern (c # cs) =
     (if c = CHR ''{'' then
        (let inner = takeWhile (\<lambda>x. x \<noteq> CHR ''}'') cs in
         case dropWhile (\<lambda>x. x \<noteq> CHR ''}'') cs of
           d # _ \<Rightarrow> if contains tool_name_key inner
                    then Some (c # inner @ [d])
                    else search_flexible_pattern cs
         | [] \<Rightarrow> search_flexible_pattern cs)
      else search_flexible_pattern cs)"

text \<open>\<^verbatim>\<open>re.search(r'```(?:json)?\s*\n?(.*?)\n?```', text, re.DOTALL)\<close>, group 1: the match
  starts at the first fence, skips \<open>json\<close> and white space, and the lazy group ends
  before the next fence, or before the line feed in front of it.\<close>

definition search_code_block :: "string \<Rightarrow> string option" where
  "search_code_block text =
     (case split_at fence text of
        None \<Rightarrow> None
      | Some (_, after) \<Rightarrow>
          (let after' = (if startswith ''json'' after then drop 4 after else after);
               q = dropWhile py_isspace after'
           in case split_at fence q of
                None \<Rightarrow> None
              | Some (body, _) \<Rightarrow>
                  Some (if body \<noteq> [] \<and> last body = CHR 0x0A then butlast body else body)))"

text \<open>\<^verbatim>\<open>re.sub(r',\s*}', '}', s)\<close> and \<^verbatim>\<open>re.sub(r',\s*]', ']', s)\<close>, with the closing
  character as a parameter: one pass from the left, matches do not overlap.\<close>

function sub_trailing_comma :: "char \<Rightarrow> string \<Rightarrow> string" where
  "sub_trailing_comma cl [] = []"
| "sub_trailing_comma cl (c # cs) =
     (if c = CHR '','' then
        (case dropWhile py_isspace cs of
           d # rest \<Rightarrow> if d = cl then cl # sub_trailing_comma cl rest
                       else c # sub_trailing_comma cl cs
         | [] \<Rightarrow> c # sub_trailing_comma cl cs)
      else c # sub_trailing_comma cl cs)"
  by pat_completeness auto
termination
proof (relation "measure (\<lambda>(cl, s). length s)")
  fix cl :: char and c :: char and cs :: string and d :: char and rest :: string
  assume "dropWhile py_isspace cs = d # rest"
  then have "length (d # rest) \<le> length cs"
    using length_dropWhile_le [of py_isspace cs] by simp
  then show "((cl, rest), (cl, c # cs)) \<in> measure (\<lambda>(cl, s). length s)"
    by simp
qed auto

text \<open>The value part of \<^verbatim>\<open>"key"\s*:\s*"([^"]+)"\<close> after the key: group 1.\<close>

definition match_field_value :: "string \<Rightarrow> string option" where
  "match_field_value s =
     (case dropWhile py_isspace s of
        c1 # r1 \<Rightarrow>
          if c1 = CHR '':'' then
            (case dropWhile py_isspace r1 of
               c2 # r2 \<Rightarrow>
                 if c2 = CHR 0x22 then
                   (let v = takeWhile (\<lambda>x. x \<noteq> CHR 0x22) r2 in
                    case dropWhile (\<lambda>x. x \<noteq> CHR 0x22) r2 of
                      _ # _ \<Rightarrow> if v \<noteq> [] then Some v else None
                    | [] \<Rightarrow> None)
                 else None
             | [] \<Rightarrow> None)
          else None
      | [] \<Rightarrow> None)"

text \<open>\<^verbatim>\<open>re.search(key + r'\s*:\s*"([^"]+)"', text)\<close>, group 1, leftmost match.\<close>

fun search_field :: "string \<Rightarrow> string \<Rightarrow> string option" where
  "search_field key [] = None"
| "search_field key (c # cs) =
     (if startswith key (c # cs) then
        (case match_field_value (drop (length key) (c # cs)) of
           Some v \<Rightarrow> Some v
         | None \<Rightarrow> search_field key cs)
      else search_field key cs)"

section \<open>json.loads\<close>

text \<open>
  The decoder of Python's standard library, as far as its result and its failure
  (\<^verbatim>\<open>JSONDecodeError\<close>, here \<open>None\<close>) go: white space is space, tab, line feed and
  carriage return; strings are strict (no control character, the escapes of JSON,
  \<^verbatim>\<open>\uXXXX\<close> with surrogate pairs, decoded to UTF-8); numbers follow
  \<^verbatim>\<open>-?(0|[1-9]\d*)(\.\d+)?([eE][-+]?\d+)?\<close>; \<^verbatim>\<open>NaN\<close>, \<^verbatim>\<open>Infinity\<close> and \<^verbatim>\<open>-Infinity\<close>
  are accepted; a repeated key keeps its first position and its last value; text after
  the value is an error. The interpreter's recursion limit is not modelled.
\<close>

datatype token =
    LBrace | RBrace | LBracket | RBracket | Colon | Comma
  | TString string
  | TValue json

definition hex_digit :: "char \<Rightarrow> nat option" where
  "hex_digit c = map_of (zip ''0123456789abcdefABCDEF''
                   [0, 1, 2, 3, 4, 5, 6, 7, 8, 9, 10, 11, 12, 13, 14, 15, 10, 11, 12, 13, 14, 15]) c"

definition hex4 :: "string \<Rightarrow> nat option" where
  "hex4 s =
     (case map hex_digit s of
        [Some a, Some b, Some c, Some d] \<Rightarrow> Some (4096 * a + 256 * b + 16 * c + d)
      | _ \<Rightarrow> None)"

definition utf8_encode :: "nat \<Rightarrow> string" where
  "utf8_encode cp =
     (if cp < 128 then [char_of cp]
      else if cp < 2048 then [char_of (192 + cp div 64), char_of (128 + cp mod 64)]
      else if cp < 65536 then
        [char_of (224 + cp div 4096), char_of (128 + (cp div 64) mod 64), char_of (128 + cp mod 64)]
      else
        [char_of (240 + cp div 262144), char_of (128 + (cp div 4096) mod 64),
         char_of (128 + (cp div 64) mod 64), char_of (128 + cp mod 64)])"

definition simple_escape :: "char \<Rightarrow> char option" where
  "simple_escape e =
     map_of [(CHR 0x22, CHR 0x22), (CHR 0x5C, CHR 0x5C), (CHR ''/'', CHR ''/''),
             (CHR ''b'', CHR 0x08), (CHR ''f'', CHR 0x0C), (CHR ''n'', CHR 0x0A),
             (CHR ''r'', CHR 0x0D), (CHR ''t'', CHR 0x09)] e"

text \<open>The low surrogate of a pair, when the text continues with \<^verbatim>\<open>\uXXXX\<close> in the range
  DC00 to DFFF.\<close>

definition low_surrogate :: "string \<Rightarrow> nat option" where
  "low_surrogate s =
     (if startswith [CHR 0x5C, CHR ''u''] s then
        (case hex4 (take 4 (drop 2 s)) of
           Some l \<Rightarrow> if 56320 \<le> l \<and> l \<le> 57343 then Some l else None
         | None \<Rightarrow> None)
      else None)"

text \<open>A string literal after its opening quote: the decoded text and the number of
  characters read, the closing quote included.\<close>

fun scan_string :: "string \<Rightarrow> (string \<times> nat) option" where
  "scan_string [] = None"
| "scan_string [c] = (if c = CHR 0x22 then Some ([], 1) else None)"
| "scan_string (c # e # cs) =
     (if c = CHR 0x22 then Some ([], 1)
      else if c = CHR 0x5C then
        (if e = CHR ''u'' then
           (case hex4 (take 4 cs) of
              None \<Rightarrow> None
            | Some h \<Rightarrow>
                (case (if 55296 \<le> h \<and> h \<le> 56319 then low_surrogate (drop 4 cs) else None) of
                   Some l \<Rightarrow>
                     (case scan_string (drop 10 cs) of
                        None \<Rightarrow> None
                      | Some (s, n) \<Rightarrow>
                          Some (utf8_encode (65536 + (h - 55296) * 1024 + (l - 56320)) @ s, n + 12))
                 | None \<Rightarrow>
                     (case scan_string (drop 4 cs) of
                        None \<Rightarrow> None
                      | Some (s, n) \<Rightarrow> Some (utf8_encode h @ s, n + 6))))
         else
           (case simple_escape e of
              None \<Rightarrow> None
            | Some ch \<Rightarrow>
                (case scan_string cs of
                   None \<Rightarrow> None
                 | Some (s, n) \<Rightarrow> Some (ch # s, n + 2))))
      else if of_char c < (32::nat) then None
      else (case scan_string (e # cs) of
              None \<Rightarrow> None
            | Some (s, n) \<Rightarrow> Some (c # s, Suc n)))"

definition is_digit :: "char \<Rightarrow> bool" where
  "is_digit c = (c \<in> set ''0123456789'')"

text \<open>The length of the longest number at the start of the text, 0 when there is none.\<close>

definition scan_number :: "string \<Rightarrow> nat" where
  "scan_number s =
     (let neg = (if startswith ''-'' s then 1 else 0);
          s1 = drop neg s;
          ipart = (case s1 of
                     [] \<Rightarrow> 0
                   | d # ds \<Rightarrow> if d = CHR ''0'' then 1
                               else if is_digit d then Suc (length (takeWhile is_digit ds))
                               else 0);
          s2 = drop ipart s1;
          frac = (case s2 of
                    p # d # ds \<Rightarrow> if p = CHR ''.'' \<and> is_digit d
                                    then 2 + length (takeWhile is_digit ds) else 0
                  | _ \<Rightarrow> 0);
          s3 = drop frac s2;
          ex = (case s3 of
                  e # r \<Rightarrow>
                    if e = CHR ''e'' \<or> e = CHR ''E'' then
                      (let sgn = (if startswith ''+'' r \<or> startswith ''-'' r then 1 else 0);
                           digs = length (takeWhile is_digit (drop sgn r))
                       in if digs = 0 then 0 else 1 + sgn + digs)
                    else 0
                | [] \<Rightarrow> 0)
      in if ipart = 0 then 0 else neg + ipart + frac + ex)"

definition json_whitespace :: "char \<Rightarrow> bool" where
  "json_whitespace c = (c \<in> set [CHR 0x20, CHR 0x09, CHR 0x0A, CHR 0x0D])"

fun tokenize :: "string \<Rightarrow> token list option" where
  "tokenize [] = Some []"
| "tokenize (c # cs) =
     (if json_whitespace c then tokenize cs
      else if c = CHR ''{'' then map_option (Cons LBrace) (tokenize cs)
      else if c = CHR ''}'' then map_option (Cons RBrace) (tokenize cs)
      else if c = CHR ''['' then map_option (Cons LBracket) (tokenize cs)
      else if c = CHR '']'' then map_option (Cons RBracket) (tokenize cs)
      else if c = CHR '':'' then map_option (Cons Colon) (tokenize cs)
      else if c = CHR '','' then map_option (Cons Comma) (tokenize cs)
      else if c = CHR 0x22 then
        (case scan_string cs of
           None \<Rightarrow> None
         | Some (s, n) \<Rightarrow> map_option (Cons (TString s)) (tokenize (drop n cs)))
      else if startswith ''null'' (c # cs) then
        map_option (Cons (TValue JNull)) (tokenize (drop 3 cs))
      else if startswith ''true'' (c # cs) then
        map_option (Cons (TValue (JBool True))) (tokenize (drop 3 cs))
      else if startswith ''false'' (c # cs) then
        map_option (Cons (TValue (JBool False))) (tokenize (drop 4 cs))
      else if scan_number (c # cs) \<noteq> 0 then
        map_option (Cons (TValue (JNumber (take (scan_number (c # cs)) (c # cs)))))
          (tokenize (drop (scan_number (c # cs) - 1) cs))
      else if startswith ''NaN'' (c # cs) then
        map_option (Cons (TValue (JNumber ''NaN''))) (tokenize (drop 2 cs))
      else if startswith ''Infinity'' (c # cs) then
        map_option (Cons (TValue (JNumber ''Infinity''))) (tokenize (drop 7 cs))
      else if startswith ''-Infinity'' (c # cs) then
        map_option (Cons (TValue (JNumber ''-Infinity''))) (tokenize (drop 8 cs))
      else None)"

text \<open>\<^verbatim>\<open>d[k] = v\<close> on a \<^verbatim>\<open>dict\<close> kept in insertion order.\<close>

fun dict_set :: "(string \<times> json) list \<Rightarrow> string \<Rightarrow> json \<Rightarrow> (string \<times> json) list" where
  "dict_set [] k v = [(k, v)]"
| "dict_set ((k', v') # kvs) k v =
     (if k' = k then (k, v) # kvs else (k', v') # dict_set kvs k v)"

text \<open>The containers that are still open, innermost first: an array with its elements
  so far (last first), an object with its members and the key that awaits its value.\<close>

datatype frame =
    FArray "json list"
  | FObject "(string \<times> json) list" "string option"

datatype expect = EValue | EValueOrEnd | EKeyOrEnd | EKey | EColon | EAfter | EDone json

fun complete :: "json \<Rightarrow> frame list \<Rightarrow> (expect \<times> frame list) option" where
  "complete v [] = Some (EDone v, [])"
| "complete v (FArray acc # st) = Some (EAfter, FArray (v # acc) # st)"
| "complete v (FObject kvs (Some k) # st) = Some (EAfter, FObject (dict_set kvs k v) None # st)"
| "complete v (FObject kvs None # st) = None"

fun begin_value :: "frame list \<Rightarrow> token \<Rightarrow> (expect \<times> frame list) option" where
  "begin_value st (TString s) = complete (JString s) st"
| "begin_value st (TValue v) = complete v st"
| "begin_value st LBracket = Some (EValueOrEnd, FArray [] # st)"
| "begin_value st LBrace = Some (EKeyOrEnd, FObject [] None # st)"
| "begin_value st _ = None"

fun step :: "expect \<times> frame list \<Rightarrow> token \<Rightarrow> (expect \<times> frame list) option" where
  "step (EValue, st) tok = begin_value st tok"
| "step (EValueOrEnd, FArray acc # st) RBracket = complete (JArray (rev acc)) st"
| "step (EValueOrEnd, st) tok = begin_value st tok"
| "step (EKeyOrEnd, FObject kvs None # st) RBrace = complete (JObject kvs) st"
| "step (EKeyOrEnd, FObject kvs None # st) (TString k) = Some (EColon, FObject kvs (Some k) # st)"
| "step (EKey, FObject kvs None # st) (TString k) = Some (EColon, FObject kvs (Some k) # st)"
| "step (EColon, st) Colon = Some (EValue, st)"
| "step (EAfter, FArray acc # st) Comma = Some (EValue, FArray acc # st)"
| "step (EAfter, FArray acc # st) RBracket = complete (JArray (rev acc)) st"
| "step (EAfter, FObject kvs None # st) Comma = Some (EKey, FObject kvs None # st)"
| "step (EAfter, FObject kvs None # st) RBrace = complete (JObject kvs) st"
| "step _ _ = None"

fun parse_tokens :: "expect \<times> frame list \<Rightarrow> token list \<Rightarrow> (expect \<times> frame list) option" where
  "parse_tokens cf [] = Some cf"
| "parse_tokens cf (t # ts) =
     (case step cf t of
        None \<Rightarrow> None
      | Some cf' \<Rightarrow> parse_tokens cf' ts)"

definition json_loads :: "string \<Rightarrow> json option" where
  "json_loads s =
     (case tokenize s of
        None \<Rightarrow> None
      | Some ts \<Rightarrow>
          (case parse_tokens (EValue, []) ts of
             Some (EDone v, _) \<Rightarrow> Some v
           | _ \<Rightarrow> None))"

text \<open>\<^verbatim>\<open>type(v).__name__\<close>\<close>

fun py_type_name :: "json \<Rightarrow> string" where
  "py_type_name JNull = ''NoneType''"
| "py_type_name (JBool b) = ''bool''"
| "py_type_name (JNumber n) =
     (if list_ex (\<lambda>c. c \<in> set ''.eEN'') n \<or> contains ''Infinity'' n then ''float'' else ''int'')"
| "py_type_name (JString s) = ''str''"
| "py_type_name (JArray xs) = ''list''"
| "py_type_name (JObject kvs) = ''dict''"

definition no_attribute_get :: "json \<Rightarrow> py_exception" where
  "no_attribute_get v =
     AttributeError ([CHR 0x27] @ py_type_name v @ [CHR 0x27] @ '' object has no attribute ''
                       @ [CHR 0x27] @ ''get'' @ [CHR 0x27])"

section \<open>IntelligentAgent.handle_json_fields (agent.py)\<close>

text \<open>The candidate text, found by the three searches in their order.\<close>

definition find_json_text :: "string \<Rightarrow> string option" where
  "find_json_text text =
     (case search_json_pattern text of
        Some m \<Rightarrow> Some (strip m)
      | None \<Rightarrow>
          (case search_code_block text of
             Some g \<Rightarrow> Some (strip g)
           | None \<Rightarrow>
               (case search_flexible_pattern text of
                  Some m \<Rightarrow> Some (strip m)
                | None \<Rightarrow> None)))"

definition has_json_markers :: "string \<Rightarrow> bool" where
  "has_json_markers text =
     (contains ''```json'' (py_lower text) \<or> contains fence text \<or>
      (contains ''{'' text \<and> contains tool_name_key text))"

text \<open>The \<^verbatim>\<open>except json.JSONDecodeError\<close> branch: the two searches on the whole text.\<close>

definition fallback_extraction :: "string \<Rightarrow> json \<times> json" where
  "fallback_extraction text =
     (case search_field tool_name_key text of
        Some tool_name \<Rightarrow>
          (case search_field query_key text of
             Some q \<Rightarrow> (JString tool_name, JObject [(''query'', JString q)])
           | None \<Rightarrow> (JString tool_name, JObject []))
      | None \<Rightarrow> (JNull, JObject []))"

definition clean_json_text :: "string \<Rightarrow> string" where
  "clean_json_text json_text = sub_trailing_comma CHR '']'' (sub_trailing_comma CHR ''}'' json_text)"

definition dict_get :: "(string \<times> json) list \<Rightarrow> string \<Rightarrow> json \<Rightarrow> json" where
  "dict_get kvs k dflt = (case map_of kvs k of Some v \<Rightarrow> v | None \<Rightarrow> dflt)"

text \<open>The result is the pair \<^verbatim>\<open>(tool_name, args)\<close>; \<^verbatim>\<open>.get\<close> on a value that is not a
  \<^verbatim>\<open>dict\<close> raises \<^verbatim>\<open>AttributeError\<close>, which this function does not catch.\<close>

definition handle_json_fields :: "string \<Rightarrow> py_exception + (json \<times> json)" where
  "handle_json_fields text =
     (case find_json_text text of
        None \<Rightarrow>
          (if \<not> has_json_markers text then Inr (JNull, JObject [])
           else Inr (JNull, JObject []))
      | Some json_text \<Rightarrow>
          (case json_loads (clean_json_text json_text) of
             Some (JObject extracted_json) \<Rightarrow>
               Inr (dict_get extracted_json ''tool_name'' JNull,
                    dict_get extracted_json ''args'' (JObject []))
           | Some v \<Rightarrow> Inl (no_attribute_get v)
           | None \<Rightarrow> Inr (fallback_extraction text)))"

section \<open>IntelligentAgent.handle_tool_call (agent.py)\<close>

text \<open>A content part of a tool result, as the code inspects it: the attribute
  \<^verbatim>\<open>type\<close> (if the part has one), the name of its class, the attributes \<^verbatim>\<open>text\<close>
  and \<^verbatim>\<open>uri\<close> (if present) and the text that \<^verbatim>\<open>str(content_item)\<close> returns.\<close>

record content_item =
  item_type :: "string option"
  class_name :: string
  item_text :: "string option"
  item_uri :: "string option"
  item_str :: string

text \<open>The result of \<^verbatim>\<open>call_tool\<close>: \<open>result_content\<close> and \<open>structuredContent\<close> are
  \<open>None\<close> when the attribute is missing or \<^verbatim>\<open>None\<close>; the values of the structured
  content are texts, as every tool of the server returns a \<^verbatim>\<open>str\<close>.\<close>

record call_tool_result =
  result_content :: "content_item list option"
  structuredContent :: "(string \<times> string) list option"
  result_str :: string

text \<open>The execution channel: \<^verbatim>\<open>await mcp_session.call_tool(tool_name, args)\<close> returns a
  result, returns \<^verbatim>\<open>None\<close>, or raises.\<close>

type_synonym channel = "json \<Rightarrow> json \<Rightarrow> py_exception + call_tool_result option"

definition no_signal :: string where
  "no_signal = [CHR 0xF0, CHR 0x9F, CHR 0x9A, CHR 0xAB] @ '' No relevant results from tool call.''"

definition empty_looking :: "string list" where
  "empty_looking = [''[]'', ''No results'', '''']"

text \<open>\<^verbatim>\<open>sep.join(parts)\<close>\<close>

fun join :: "string \<Rightarrow> string list \<Rightarrow> string" where
  "join sep [] = []"
| "join sep [x] = x"
| "join sep (x # y # ys) = x @ sep @ join sep (y # ys)"

definition resource_placeholder :: "content_item \<Rightarrow> string" where
  "resource_placeholder c =
     ''[Resource: '' @ (case item_uri c of Some u \<Rightarrow> u | None \<Rightarrow> ''Unknown'') @ '']''"

definition text_or_str :: "content_item \<Rightarrow> string" where
  "text_or_str c = (case item_text c of Some s \<Rightarrow> s | None \<Rightarrow> item_str c)"

text \<open>The body of the loop over \<^verbatim>\<open>result.content\<close>: the text appended for one part.\<close>

definition render_content_item :: "content_item \<Rightarrow> string" where
  "render_content_item c =
     (case item_type c of
        Some t \<Rightarrow>
          if t = ''text'' then text_or_str c
          else if t = ''image'' then ''[Image content]''
          else if t = ''audio'' then ''[Audio content]''
          else if t = ''resource'' then resource_placeholder c
          else item_str c
      | None \<Rightarrow>
          if class_name c = ''TextContent'' then text_or_str c
          else if contains ''Image'' (class_name c) then ''[Image content]''
          else if contains ''Audio'' (class_name c) then ''[Audio content]''
          else if contains ''Resource'' (class_name c) then resource_placeholder c
          else item_str c)"

text \<open>The last step, reached when no branch above it has returned.\<close>

definition last_resort :: "call_tool_result \<Rightarrow> string" where
  "last_resort r =
     (if result_str r \<notin> set empty_looking then result_str r else no_signal)"

text \<open>The code after the call has returned \<open>result\<close>.\<close>

definition normalize_result :: "call_tool_result option \<Rightarrow> string" where
  "normalize_result result =
     (case result of
        None \<Rightarrow> no_signal
      | Some r \<Rightarrow>
          (case result_content r of
             Some (c # cs) \<Rightarrow>
               (let text_parts = map render_content_item (c # cs);
                    extracted_text = (if text_parts \<noteq> [] then join [CHR 0x0A] text_parts
                                      else ''No text content found'')
                in if extracted_text \<noteq> [] \<and> extracted_text \<notin> set empty_looking
                   then extracted_text
                   else last_resort r)
           | _ \<Rightarrow>
               (case structuredContent r of
                  Some (kv # kvs) \<Rightarrow>
                    (case map_of (kv # kvs) ''result'' of
                       Some v \<Rightarrow> v
                     | None \<Rightarrow> last_resort r)
                | _ \<Rightarrow> last_resort r)))"

text \<open>Truth value of a Python value (\<^verbatim>\<open>not tool_name\<close>); a number is false when its
  digits before the exponent are all zero.\<close>

fun py_truthy :: "json \<Rightarrow> bool" where
  "py_truthy JNull = False"
| "py_truthy (JBool b) = b"
| "py_truthy (JNumber n) =
     list_ex (\<lambda>c. c \<notin> set ''-0.'') (takeWhile (\<lambda>c. c \<noteq> CHR ''e'' \<and> c \<noteq> CHR ''E'') n)"
| "py_truthy (JString s) = (s \<noteq> [])"
| "py_truthy (JArray xs) = (xs \<noteq> [])"
| "py_truthy (JObject kvs) = (kvs \<noteq> [])"

text \<open>\<^verbatim>\<open>isinstance(args, dict)\<close>\<close>

fun is_dict :: "json \<Rightarrow> bool" where
  "is_dict (JObject kvs) = True"
| "is_dict _ = False"

text \<open>The result, and the calls made on the channel (tool name and arguments).\<close>

definition handle_tool_call :: "channel \<Rightarrow> json \<Rightarrow> json \<Rightarrow> (py_exception + string) \<times> (json \<times> json) list" where
  "handle_tool_call ch tool_name args =
     (if \<not> py_truthy tool_name then (Inr ''Invalid tool name or arguments.'', [])
      else if \<not> is_dict args then (Inr ''Invalid tool name or arguments.'', [])
      else
        (case ch tool_name args of
           Inl e \<Rightarrow> (Inl e, [(tool_name, args)])
         | Inr result \<Rightarrow> (Inr (normalize_result result), [(tool_name, args)])))"

section \<open>AIModel.function_call_avaliablity and the constructor (ai_model_lib.py)\<close>

definition probe_messages :: "turn list" where
  "probe_messages = [\<lparr>role = ''user'', content = ''What is the weather in New York?''\<rparr>]"

definition probe_tools :: "string list" where
  "probe_tools = [''get_current_weather'']"

text \<open>\<^verbatim>\<open>except ResponseError: return False\<close>; any other exception is raised to the caller.\<close>

definition function_call_avaliablity :: "client \<Rightarrow> string \<Rightarrow> py_exception + bool" where
  "function_call_avaliablity cl model =
     (case client_chat cl model probe_messages probe_tools of
        Inr _ \<Rightarrow> Inr True
      | Inl (ResponseError msg) \<Rightarrow> Inr False
      | Inl e \<Rightarrow> Inl e)"

text \<open>\<^verbatim>\<open>AIModel(model_name, ..., system_instruction)\<close>: the fields are set, with no
  functions offered and the default bound of 15 turns, and the memory is loaded. The
  creation of the data directory is taken to succeed.\<close>

definition new_aimodel :: "string \<Rightarrow> string \<Rightarrow> store \<Rightarrow> (py_exception + aimodel) \<times> store" where
  "new_aimodel name instruction st =
     (case load_memory \<lparr>model_name = name, system_instruction = instruction,
                        avaliable_functions = [], history = [], max_history_length = 15\<rparr> st of
        (Inl e, m, st') \<Rightarrow> (Inl e, st')
      | (Inr _, m, st') \<Rightarrow> (Inr m, st'))"

text \<open>\<^verbatim>\<open>AIModel.generate_response(prompt)\<close>\<close>

definition generate_response :: "client \<Rightarrow> aimodel \<Rightarrow> string \<Rightarrow> py_exception + string" where
  "generate_response cl m prompt = client_generate cl (model_name m) prompt (system_instruction m)"

section \<open>IntelligentAgent.handle_user_query (agent.py)\<close>

text \<open>The agent: the two model names and the three fixed system instructions of the
  source (the one for a model with native tool calling, the one for the text
  convention, which lists the tools, and the one of the formatter).\<close>

record agent =
  Big_model :: string
  Small_model :: string
  native_instruction :: string
  fallback_instruction :: string
  formatter_instruction :: string

text \<open>What a run does outside the agent: calls on the execution channel and one-shot
  generations (model name and prompt), in their order.\<close>

datatype event = ToolCall json json | Generate string string

definition tool_events :: "(json \<times> json) list \<Rightarrow> event list" where
  "tool_events calls = map (\<lambda>(n, a). ToolCall n a) calls"

definition tool_call_tag :: string where
  "tool_call_tag = [CHR 0xF0, CHR 0x9F, CHR 0x94, CHR 0x8D] @ '' **Tool Call Result:**''
                     @ [CHR 0x0A, CHR 0x0A]"

definition direct_response_tag :: string where
  "direct_response_tag = [CHR 0xF0, CHR 0x9F, CHR 0x92, CHR 0xAD] @ '' **Direct Response:**''
                           @ [CHR 0x0A, CHR 0x0A]"

definition error_tag :: string where
  "error_tag = [CHR 0xE2, CHR 0x9D, CHR 0x8C] @ '' **Error processing query:** ''"

text \<open>\<^verbatim>\<open>small_model_handle_tool_response(tool_response, model, userprompt)\<close>: a new
  \<^verbatim>\<open>AIModel\<close> (which loads the memory) and one \<^verbatim>\<open>generate_response\<close> on the tool
  response.\<close>

definition small_model_handle_tool_response ::
    "agent \<Rightarrow> client \<Rightarrow> store \<Rightarrow> string \<Rightarrow> string \<Rightarrow> string
       \<Rightarrow> (py_exception + string) \<times> event list \<times> store" where
  "small_model_handle_tool_response ag cl st tool_response model userprompt =
     (let model' = (if model \<noteq> [] then model else Small_model ag) in
      if model' = [] then (Inr ''No model specified for processing tool response.'', [], st)
      else
        (case new_aimodel model' (formatter_instruction ag) st of
           (Inl e, st') \<Rightarrow> (Inl e, [], st')
         | (Inr aimodel, st') \<Rightarrow>
             (generate_response cl aimodel tool_response, [Generate model' tool_response], st')))"

text \<open>What \<^verbatim>\<open>aimodel.chat\<close> hands to \<^verbatim>\<open>handle_user_query\<close>: the code tests
  \<^verbatim>\<open>isinstance(aimodel_response, dict)\<close>; \<^verbatim>\<open>chat\<close> itself returns a \<^verbatim>\<open>str\<close>.\<close>

datatype chat_result = ResponseDict chat_response | ResponseText string

text \<open>The \<^verbatim>\<open>else\<close> branch for a \<^verbatim>\<open>str\<close>: the text is decoded when it is JSON, and
  \<^verbatim>\<open>message.content\<close> is taken from it, with the text itself as the default.\<close>

definition content_of_text :: "string \<Rightarrow> py_exception + json" where
  "content_of_text aimodel_response =
     (case json_loads aimodel_response of
        None \<Rightarrow> Inr (JString aimodel_response)
      | Some (JObject response_data) \<Rightarrow>
          (case dict_get response_data ''message'' (JObject []) of
             JObject message \<Rightarrow> Inr (dict_get message ''content'' (JString aimodel_response))
           | v \<Rightarrow> Inl (no_attribute_get v))
      | Some v \<Rightarrow> Inl (no_attribute_get v))"

definition not_a_string :: "json \<Rightarrow> py_exception" where
  "not_a_string v =
     TypeError (''expected string or bytes-like object, got '' @ [CHR 0x27] @ py_type_name v
                  @ [CHR 0x27])"

text \<open>From \<^verbatim>\<open>extracted_json = self.handle_json_fields(actual_content)\<close> to the
  \<^verbatim>\<open>return\<close>: a tool name that is not \<^verbatim>\<open>None\<close> is dispatched and the result goes
  through the small model; otherwise the content is the direct answer.\<close>

definition extract_and_dispatch ::
    "agent \<Rightarrow> client \<Rightarrow> channel \<Rightarrow> store \<Rightarrow> string \<Rightarrow> json
       \<Rightarrow> (py_exception + string) \<times> event list \<times> store" where
  "extract_and_dispatch ag cl ch st user_query actual_content =
     (case actual_content of
        JString text \<Rightarrow>
          (case handle_json_fields text of
             Inl e \<Rightarrow> (Inl e, [], st)
           | Inr (tool_name, args) \<Rightarrow>
               if tool_name \<noteq> JNull then
                 (case handle_tool_call ch tool_name args of
                    (Inl e, calls) \<Rightarrow> (Inl e, tool_events calls, st)
                  | (Inr tool_result, calls) \<Rightarrow>
                      (case small_model_handle_tool_response ag cl st tool_result
                              (Small_model ag) user_query of
                         (Inl e, evs, st') \<Rightarrow> (Inl e, tool_events calls @ evs, st')
                       | (Inr formatted, evs, st') \<Rightarrow>
                           (Inr (tool_call_tag @ formatted), tool_events calls @ evs, st')))
               else (Inr (direct_response_tag @ text), [], st))
      | v \<Rightarrow> (Inl (not_a_string v), [], st))"

text \<open>The loop over native tool calls: each is dispatched in turn, the last result is
  kept.\<close>

fun run_tool_calls :: "channel \<Rightarrow> (string \<times> json) list \<Rightarrow> string
                         \<Rightarrow> (py_exception + string) \<times> (json \<times> json) list" where
  "run_tool_calls ch [] tools_result = (Inr tools_result, [])"
| "run_tool_calls ch ((name, arguments) # rest) tools_result =
     (case handle_tool_call ch (JString name) arguments of
        (Inl e, calls) \<Rightarrow> (Inl e, calls)
      | (Inr r, calls) \<Rightarrow>
          (case run_tool_calls ch rest r of
             (res, calls') \<Rightarrow> (res, calls @ calls')))"

text \<open>The code after \<^verbatim>\<open>aimodel_response = aimodel.chat(user_query)\<close>. \<open>native\<close> tells the
  branch of the probe: only the first branch looks at \<^verbatim>\<open>tool_calls\<close>.\<close>

definition respond ::
    "bool \<Rightarrow> agent \<Rightarrow> client \<Rightarrow> channel \<Rightarrow> store \<Rightarrow> string \<Rightarrow> chat_result
       \<Rightarrow> (py_exception + string) \<times> event list \<times> store" where
  "respond native ag cl ch st user_query aimodel_response =
     (case aimodel_response of
        ResponseDict r \<Rightarrow>
          if native \<and> message_tool_calls r \<noteq> [] then
            (case run_tool_calls ch (message_tool_calls r) [] of
               (Inl e, calls) \<Rightarrow> (Inl e, tool_events calls, st)
             | (Inr tools_result, calls) \<Rightarrow>
                 (Inr (tool_call_tag @ tools_result), tool_events calls, st))
          else extract_and_dispatch ag cl ch st user_query (JString (message_content r))
      | ResponseText s \<Rightarrow>
          (case content_of_text s of
             Inl e \<Rightarrow> (Inl e, [], st)
           | Inr actual_content \<Rightarrow> extract_and_dispatch ag cl ch st user_query actual_content))"

text \<open>The body of the \<^verbatim>\<open>try\<close> block: probe, model object, chat, response.\<close>

definition handle_user_query_body ::
    "agent \<Rightarrow> client \<Rightarrow> channel \<Rightarrow> store \<Rightarrow> string
       \<Rightarrow> (py_exception + string) \<times> event list \<times> store" where
  "handle_user_query_body ag cl ch st user_query =
     (case function_call_avaliablity cl (Big_model ag) of
        Inl e \<Rightarrow> (Inl e, [], st)
      | Inr native \<Rightarrow>
          (case new_aimodel (Big_model ag)
                  (if native then native_instruction ag else fallback_instruction ag) st of
             (Inl e, st1) \<Rightarrow> (Inl e, [], st1)
           | (Inr aimodel, st1) \<Rightarrow>
               (case chat cl aimodel st1 user_query False of
                  (Inl e, m2, st2) \<Rightarrow> (Inl e, [], st2)
                | (Inr aimodel_response, m2, st2) \<Rightarrow>
                    respond native ag cl ch st2 user_query (ResponseText aimodel_response))))"

text \<open>\<^verbatim>\<open>handle_user_query\<close>: the body under \<^verbatim>\<open>except Exception as e\<close>. The result is
  the answer, the events of the run and the store after it.\<close>

definition handle_user_query ::
    "agent \<Rightarrow> client \<Rightarrow> channel \<Rightarrow> store \<Rightarrow> string \<Rightarrow> string \<times> event list \<times> store" where
  "handle_user_query ag cl ch st user_query =
     (case handle_user_query_body ag cl ch st user_query of
        (Inl e, evs, st') \<Rightarrow> (error_tag @ str_exception e, evs, st')
      | (Inr answer, evs, st') \<Rightarrow> (answer, evs, st'))"

text \<open>An agent with the default model names of the source and short stand-ins for the
  three instructions, for the runs evaluated below.\<close>

definition example_agent :: agent where
  "example_agent = \<lparr>Big_model = ''gemma3:12b'', Small_model = ''gemma3:1b'',
                      native_instruction = ''N'', fallback_instruction = ''F'',
                      formatter_instruction = ''R''\<rparr>"


section \<open>Properties of the conversation memory\<close>

text \<open>The truncation in \<^verbatim>\<open>chat\<close>: for a bound of at least 2, a history longer than
  the bound is cut to exactly the bound and keeps its first turn.\<close>

lemma truncate_history_bound:
  "2 \<le> n \<Longrightarrow> n < int (length h) \<Longrightarrow>
     \<exists>h'. truncate_history h n = Inr h' \<and> int (length h') = n \<and> hd h' = hd h"
  by (cases h) (auto simp: truncate_history_def py_slice_from_def)

text \<open>The truncation in \<^verbatim>\<open>load_memory\<close> keeps the last \<open>max_history_length\<close> turns
  only, for a bound of at least 1.\<close>

lemma load_memory_tail:
  "1 \<le> max_history_length m \<Longrightarrow> memory_file st = Snapshot ts \<Longrightarrow>
   max_history_length m < int (length ts) \<Longrightarrow> load_memory m st = (r, m', st') \<Longrightarrow>
     history m' = drop (length ts - nat (max_history_length m)) ts"
  by (auto simp: load_memory_def size_of_memory_def py_slice_from_def Let_def nat_diff_distrib'
           split: sum.splits)

text \<open>With a bound of at least 2, the history that \<^verbatim>\<open>chat\<close> leaves after a reply is
  within the bound and begins with the turn it began with.\<close>

lemma record_reply_bound:
  assumes "2 \<le> max_history_length m" and "record_reply m st r = (res, m', st')"
  shows "size_of_memory m' \<le> max_history_length m' \<and> max_history_length m' = max_history_length m"
proof -
  let ?h1 = "if length (history m) > 1
             then (history m)[1 := (history m ! 1)\<lparr>content := str_int (eval_count r)\<rparr>]
             else history m"
  let ?h2 = "?h1 @ [\<lparr>role = ''assistant'', content = message_content r\<rparr>]"
  show ?thesis
  proof (cases "int (length ?h2) > max_history_length m")
    case True
    obtain h3 where h3: "truncate_history ?h2 (max_history_length m) = Inr h3"
      and len: "int (length h3) = max_history_length m"
      using truncate_history_bound [OF assms(1) True] by blast
    from assms(2) True h3 len show ?thesis
      by (auto simp: record_reply_def size_of_memory_def Let_def split: sum.splits if_splits)
  next
    case False
    with assms(2) show ?thesis
      by (auto simp: record_reply_def size_of_memory_def Let_def split: sum.splits if_splits)
  qed
qed

lemma record_reply_keeps_first:
  assumes "2 \<le> max_history_length m" and "record_reply m st r = (res, m', st')"
    and "history m \<noteq> []"
  shows "hd (history m') = hd (history m)"
proof -
  let ?h1 = "if length (history m) > 1
             then (history m)[1 := (history m ! 1)\<lparr>content := str_int (eval_count r)\<rparr>]
             else history m"
  let ?h2 = "?h1 @ [\<lparr>role = ''assistant'', content = message_content r\<rparr>]"
  from assms(3) have hd2: "hd ?h2 = hd (history m)"
    by (cases "history m") (auto simp: hd_append split: nat.splits)
  show ?thesis
  proof (cases "int (length ?h2) > max_history_length m")
    case True
    obtain h3 where h3: "truncate_history ?h2 (max_history_length m) = Inr h3"
      and hd3: "hd h3 = hd ?h2"
      using truncate_history_bound [OF assms(1) True] by blast
    from assms(2) True h3 hd3 hd2 show ?thesis
      by (auto simp: record_reply_def size_of_memory_def Let_def split: sum.splits if_splits)
  next
    case False
    with assms(2) hd2 show ?thesis
      by (auto simp: record_reply_def size_of_memory_def Let_def split: sum.splits if_splits)
  qed
qed

text \<open>With the bound 1 the slice \<^verbatim>\<open>self.history[-0:]\<close> is the whole history, and the
  truncation of \<^verbatim>\<open>chat\<close> makes the history longer.\<close>

lemma truncate_history_bound_one:
  "h \<noteq> [] \<Longrightarrow> truncate_history h 1 = Inr (hd h # h)"
  by (cases h) (auto simp: truncate_history_def py_slice_from_def)

text \<open>
  Claim C2 (memory truncation bound and system-turn survival). The claim asks that a
  memory that exceeded \<open>max_history\<close> and began with a system turn still begins with
  that system turn after truncation, on load as well as in \<^verbatim>\<open>chat\<close>.
  The truncation on load does not: with \<open>max_history_length = 3\<close> and a stored snapshot
  of four turns that begins with the system turn, \<^verbatim>\<open>load_memory\<close> keeps the last three
  turns, writes them back, and the system turn is gone.
\<close>

theorem C2_load_memory_drops_system_turn:
  "load_memory
     \<lparr>model_name = ''gemma3:12b'', system_instruction = ''S'', avaliable_functions = [],
        history = [], max_history_length = 3\<rparr>
     \<lparr>memory_file = Snapshot
        [\<lparr>role = ''system'', content = ''S''\<rparr>, \<lparr>role = ''user'', content = ''q1''\<rparr>,
         \<lparr>role = ''assistant'', content = ''a1''\<rparr>, \<lparr>role = ''user'', content = ''q2''\<rparr>],
      write_fault = None\<rparr>
   = (Inr True,
      \<lparr>model_name = ''gemma3:12b'', system_instruction = ''S'', avaliable_functions = [],
        history = [\<lparr>role = ''user'', content = ''q1''\<rparr>,
          \<lparr>role = ''assistant'', content = ''a1''\<rparr>, \<lparr>role = ''user'', content = ''q2''\<rparr>],
        max_history_length = 3\<rparr>,
      \<lparr>memory_file = Snapshot
        [\<lparr>role = ''user'', content = ''q1''\<rparr>,
         \<lparr>role = ''assistant'', content = ''a1''\<rparr>, \<lparr>role = ''user'', content = ''q2''\<rparr>],
      write_fault = None\<rparr>)"
  by (simp add: load_memory_def size_of_memory_def py_slice_from_def write_memory_def)

text \<open>
  Claim C5 (the turn sequence is append-only except for truncation). The claim asks
  that no operation of the query pipeline changes the content of a stored turn.
  \<^verbatim>\<open>chat\<close> writes the reply's token count into the content of the turn at index 1:
  on an empty memory, the query \<open>hello\<close> answered by \<open>hi\<close> with 7 tokens leaves the
  user turn stored with content \<open>7\<close>, in the object and in the file.
\<close>

theorem C5_chat_overwrites_stored_turn:
  "chat \<lparr>client_chat = (\<lambda>_ _ _. Inr \<lparr>message_content = ''hi'', message_tool_calls = [],
                                      eval_count = 7\<rparr>),
         client_generate = (\<lambda>_ _ _. Inr [])\<rparr>
     \<lparr>model_name = ''gemma3:12b'', system_instruction = ''S'', avaliable_functions = [],
        history = [], max_history_length = 15\<rparr>
     \<lparr>memory_file = Missing, write_fault = None\<rparr> ''hello'' False
   = (Inr ''hi'',
      \<lparr>model_name = ''gemma3:12b'', system_instruction = ''S'', avaliable_functions = [],
        history = [\<lparr>role = ''system'', content = ''S''\<rparr>, \<lparr>role = ''user'', content = ''7''\<rparr>,
          \<lparr>role = ''assistant'', content = ''hi''\<rparr>],
        max_history_length = 15\<rparr>,
      \<lparr>memory_file = Snapshot
        [\<lparr>role = ''system'', content = ''S''\<rparr>, \<lparr>role = ''user'', content = ''7''\<rparr>,
         \<lparr>role = ''assistant'', content = ''hi''\<rparr>],
       write_fault = None\<rparr>)"
  by (simp add: chat_def load_memory_def record_reply_def size_of_memory_def write_memory_def
        str_int_def Let_def)

section \<open>Properties of the extraction (handle_json_fields)\<close>

text \<open>\<open>contains\<close> is the substring test: \<open>sub\<close> occurs somewhere in \<open>s\<close>.\<close>

lemma startswith_iff: "startswith sub s \<longleftrightarrow> (\<exists>ss. s = sub @ ss)"
  by (induction sub s rule: startswith.induct) auto

lemma contains_iff: "contains sub s \<longleftrightarrow> (\<exists>ps ss. s = ps @ sub @ ss)"
proof (induction s)
  case Nil
  then show ?case by auto
next
  case (Cons c cs)
  show ?case
  proof
    assume "contains sub (c # cs)"
    then consider "startswith sub (c # cs)" | "contains sub cs" by auto
    then show "\<exists>ps ss. c # cs = ps @ sub @ ss"
    proof cases
      case 1
      then obtain ss where "c # cs = sub @ ss" using startswith_iff by blast
      then have "c # cs = [] @ sub @ ss" by simp
      then show ?thesis by blast
    next
      case 2
      with Cons.IH obtain ps ss where "cs = ps @ sub @ ss" by blast
      then have "c # cs = (c # ps) @ sub @ ss" by simp
      then show ?thesis by blast
    qed
  next
    assume "\<exists>ps ss. c # cs = ps @ sub @ ss"
    then obtain ps ss where eq: "c # cs = ps @ sub @ ss" by blast
    show "contains sub (c # cs)"
    proof (cases ps)
      case Nil
      with eq have "startswith sub (c # cs)" using startswith_iff by auto
      then show ?thesis by simp
    next
      case (Cons p ps')
      with eq have "cs = ps' @ sub @ ss" by simp
      with Cons.IH have "contains sub cs" by blast
      then show ?thesis by simp
    qed
  qed
qed

lemma startswith_append: "startswith sub xs \<Longrightarrow> startswith sub (xs @ ys)"
  by (induction sub xs rule: startswith.induct) auto

lemma contains_Nil_left: "contains [] s"
  by (cases s) auto

lemma contains_append: "contains sub xs \<Longrightarrow> contains sub (xs @ ys)"
proof (induction xs)
  case Nil
  then show ?case by (simp add: contains_Nil_left)
next
  case (Cons c cs)
  then show ?case using startswith_append [of sub "c # cs" ys] by auto
qed

lemma contains_takeWhile: "contains sub (takeWhile P cs) \<Longrightarrow> contains sub cs"
  using contains_append [of sub "takeWhile P cs" "dropWhile P cs"] by simp

lemma search_json_pattern_Some:
  "search_json_pattern text = Some m \<Longrightarrow> contains ''{'' text \<and> contains tool_name_key text"
proof (induction "text")
  case Nil
  then show ?case by simp
next
  case (Cons c cs)
  show ?case
  proof (cases "search_json_pattern cs = Some m")
    case True
    with Cons.IH show ?thesis by simp
  next
    case False
    with Cons.prems have "c = CHR ''{''"
      and "contains tool_name_key (takeWhile (\<lambda>x. x \<noteq> CHR ''{'' \<and> x \<noteq> CHR ''}'') cs)"
      by (auto simp: Let_def split: if_splits list.splits)
    then show ?thesis using contains_takeWhile by auto
  qed
qed

lemma search_flexible_pattern_Some:
  "search_flexible_pattern text = Some m \<Longrightarrow> contains ''{'' text \<and> contains tool_name_key text"
proof (induction "text")
  case Nil
  then show ?case by simp
next
  case (Cons c cs)
  show ?case
  proof (cases "search_flexible_pattern cs = Some m")
    case True
    with Cons.IH show ?thesis by simp
  next
    case False
    with Cons.prems have "c = CHR ''{''"
      and "contains tool_name_key (takeWhile (\<lambda>x. x \<noteq> CHR ''}'') cs)"
      by (auto simp: Let_def split: if_splits list.splits)
    then show ?thesis using contains_takeWhile by auto
  qed
qed

lemma split_at_Some: "split_at sub s = Some r \<Longrightarrow> contains sub s"
  by (induction s arbitrary: r) (auto split: if_splits option.splits)

lemma search_code_block_Some: "search_code_block text = Some g \<Longrightarrow> contains fence text"
  by (auto simp: search_code_block_def dest: split_at_Some split: option.splits)

lemma find_json_text_None:
  assumes "\<not> contains fence t" and "\<not> (contains ''{'' t \<and> contains tool_name_key t)"
  shows "find_json_text t = None"
proof -
  have a: "search_json_pattern t = None"
    using assms(2) search_json_pattern_Some [of t] by (cases "search_json_pattern t") auto
  have b: "search_code_block t = None"
    using assms(1) search_code_block_Some [of t] by (cases "search_code_block t") auto
  have c: "search_flexible_pattern t = None"
    using assms(2) search_flexible_pattern_Some [of t] by (cases "search_flexible_pattern t") auto
  show ?thesis by (simp add: find_json_text_def a b c)
qed

text \<open>
  Claim C8 (plain-prose classification). A text with no fence marker, and without both
  a \<open>{\<close> and the key \<open>"tool_name"\<close>, gives the result \<^verbatim>\<open>(None, {})\<close>: no tool call, and
  no exception. None of the three searches finds a candidate in such a text, so the
  decoder is never run.
\<close>

theorem C8_plain_prose_is_no_call:
  "\<not> contains fence text \<and> \<not> (contains ''{'' text \<and> contains tool_name_key text) \<Longrightarrow>
     handle_json_fields text = Inr (JNull, JObject [])"
  using find_json_text_None [of "text"] by (auto simp: handle_json_fields_def)

text \<open>The sentence of the spec, \<open>The sky is blue today.\<close>, is such a text.\<close>

theorem C8_witness:
  "\<not> contains fence ''The sky is blue today.'' \<and>
   \<not> (contains ''{'' ''The sky is blue today.'' \<and> contains tool_name_key ''The sky is blue today.'') \<and>
   handle_json_fields ''The sky is blue today.'' = Inr (JNull, JObject [])"
  using C8_plain_prose_is_no_call [of "''The sky is blue today.''"]
  by (simp add: fence_def tool_name_key_def)









text \<open>
  Claim C1 (round trip of the wire shape). The claim asks that a call with flat
  arguments, written as \<open>{"tool_name": name, "args": {...}}\<close>, is extracted with the same
  name and the same arguments. The wire shape nests the arguments in the outer object,
  so the first search finds no flat span, the third search cuts the candidate at the
  first \<open>}\<close>, the decoder fails, and the recovery keeps the name and only an argument
  called \<open>query\<close>: the call of \<open>list_directory\<close> with \<open>path = data\<close> comes back with
  no arguments.
\<close>

theorem C1_wire_shape_loses_arguments:
  \<open>handle_json_fields ''{"tool_name": "list_directory", "args": {"path": "data"}}''
     = Inr (JString ''list_directory'', JObject [])\<close>
  by code_simp

text \<open>Inside a fenced block the same call is extracted whole: the second search takes
  the body of the block, which the decoder accepts.\<close>

lemma fenced_wire_shape_extracted:
  \<open>handle_json_fields (''```json'' @ [CHR 0x0A]
       @ ''{"tool_name":"list_directory","args":{"path":"data"}}'' @ [CHR 0x0A] @ ''```'')
     = Inr (JString ''list_directory'', JObject [(''path'', JString ''data'')])\<close>
  by code_simp

section \<open>Properties of the tool dispatch (handle_tool_call)\<close>

text \<open>The renderings of the content parts: the text of a text part, the fixed
  placeholders, and \<^verbatim>\<open>str\<close> of a part of any other kind. When the joined text is not
  empty-looking it is the result.\<close>

lemma render_text_part:
  "item_type c = Some ''text'' \<Longrightarrow> item_text c = Some s \<Longrightarrow> render_content_item c = s"
  by (simp add: render_content_item_def text_or_str_def)

lemma render_placeholders:
  "item_type c = Some ''image'' \<Longrightarrow> render_content_item c = ''[Image content]''"
  "item_type c = Some ''audio'' \<Longrightarrow> render_content_item c = ''[Audio content]''"
  "item_type c = Some ''resource'' \<Longrightarrow> item_uri c = Some u \<Longrightarrow>
     render_content_item c = ''[Resource: '' @ u @ '']''"
  "item_type c = Some t \<Longrightarrow> t \<notin> {''text'', ''image'', ''audio'', ''resource''} \<Longrightarrow>
     render_content_item c = item_str c"
  by (simp_all add: render_content_item_def resource_placeholder_def)

lemma handle_tool_call_content:
  assumes "py_truthy tool_name" and "is_dict args"
    and "ch tool_name args = Inr (Some r)" and "result_content r = Some (c # cs)"
    and "join [CHR 0x0A] (map render_content_item (c # cs)) \<notin> set empty_looking"
  shows "handle_tool_call ch tool_name args
           = (Inr (join [CHR 0x0A] (map render_content_item (c # cs))), [(tool_name, args)])"
  using assms
  by (simp add: handle_tool_call_def normalize_result_def empty_looking_def Let_def)

text \<open>
  Claim C10 (dispatch guard). For a tool name that is empty or \<^verbatim>\<open>None\<close> (any false
  value), or arguments that are not a \<^verbatim>\<open>dict\<close>, the result is the fixed text, no call
  is made on the channel, and nothing is raised, whatever the channel would do.
\<close>

theorem C10_dispatch_guard:
  "\<not> py_truthy tool_name \<or> \<not> is_dict args \<Longrightarrow>
     handle_tool_call ch tool_name args = (Inr ''Invalid tool name or arguments.'', [])"
  by (auto simp: handle_tool_call_def)

text \<open>An empty name, the name \<^verbatim>\<open>None\<close>, and arguments that are a string, on a channel
  that would raise.\<close>

theorem C10_witness:
  "\<not> py_truthy (JString [])
   \<and> handle_tool_call (\<lambda>n a. Inl (McpError ''unreachable'')) (JString []) (JObject [])
       = (Inr ''Invalid tool name or arguments.'', [])
   \<and> \<not> py_truthy JNull
   \<and> handle_tool_call (\<lambda>n a. Inl (McpError ''unreachable'')) JNull (JObject [])
       = (Inr ''Invalid tool name or arguments.'', [])
   \<and> \<not> is_dict (JString ''data'')
   \<and> handle_tool_call (\<lambda>n a. Inl (McpError ''unreachable'')) (JString ''list_directory'') (JString ''data'')
       = (Inr ''Invalid tool name or arguments.'', [])"
  using C10_dispatch_guard [of "JString []" "JObject []" "\<lambda>n a. Inl (McpError ''unreachable'')"]
    C10_dispatch_guard [of JNull "JObject []" "\<lambda>n a. Inl (McpError ''unreachable'')"]
    C10_dispatch_guard [of "JString ''list_directory''" "JString ''data''" "\<lambda>n a. Inl (McpError ''unreachable'')"]
  by simp

text \<open>
  Claim C7 (normalization of the tool result). The placeholders are as the claim says
  (lemmas above). The second half asks for the no-signal message whenever the
  normalized output is \<open>[]\<close>, \<open>No results\<close> or empty. A result whose one text part
  reads \<open>[]\<close> is not returned as such, but the code then falls through to its last
  step and returns \<^verbatim>\<open>str(result)\<close>, the rendering of the whole result object, instead
  of the no-signal message.
\<close>

theorem C7_empty_looking_content_returns_str_of_result:
  \<open>handle_tool_call
     (\<lambda>n a. Inr (Some \<lparr>result_content = Some [\<lparr>item_type = Some ''text'', class_name = ''TextContent'',
                                                    item_text = Some ''[]'', item_uri = None,
                                                    item_str = ''type='' @ [CHR 0x27] @ ''text'' @ [CHR 0x27] @ '' text='' @ [CHR 0x27] @ ''[]'' @ [CHR 0x27]\<rparr>],
                         structuredContent = None,
                         result_str = ''meta=None content=[TextContent(type='' @ [CHR 0x27] @ ''text'' @ [CHR 0x27] @ '', text='' @ [CHR 0x27] @ ''[]'' @ [CHR 0x27] @ '')] isError=False''\<rparr>))
     (JString ''google_search'') (JObject [(''query'', JString ''x'')])
   = (Inr (''meta=None content=[TextContent(type='' @ [CHR 0x27] @ ''text'' @ [CHR 0x27] @ '', text='' @ [CHR 0x27] @ ''[]'' @ [CHR 0x27] @ '')] isError=False''),
      [(JString ''google_search'', JObject [(''query'', JString ''x'')])])\<close>
  by (simp add: handle_tool_call_def normalize_result_def render_content_item_def text_or_str_def
        empty_looking_def last_resort_def Let_def)




section \<open>Properties of the orchestrator (handle_user_query)\<close>

text \<open>The model object keeps the name and the instruction it was built with.\<close>

lemma load_memory_fields:
  "load_memory m st = (r, m', st') \<Longrightarrow>
     model_name m' = model_name m \<and> system_instruction m' = system_instruction m"
  by (auto simp: load_memory_def Let_def split: file_state.splits sum.splits if_splits)

lemma new_aimodel_fields:
  "new_aimodel n i st = (Inr m, st') \<Longrightarrow> model_name m = n \<and> system_instruction m = i"
  by (auto simp: new_aimodel_def split: prod.splits sum.splits dest!: load_memory_fields)

text \<open>A call extracted from the text is dispatched, and the result of the dispatch,
  whatever it is, is the prompt of one generation by the small model; the answer is
  the tag followed by the text generated. The branch for native tool calls, were it
  reached, would dispatch and return without any generation.\<close>

lemma text_extracted_call_is_formatted:
  assumes "handle_json_fields t = Inr (tool_name, args)" and "tool_name \<noteq> JNull"
    and "handle_tool_call ch tool_name args = (Inr tool_result, calls)"
    and "Small_model ag \<noteq> []"
    and "new_aimodel (Small_model ag) (formatter_instruction ag) st = (Inr m, st')"
    and "client_generate cl (Small_model ag) tool_result (formatter_instruction ag) = Inr formatted"
  shows "extract_and_dispatch ag cl ch st user_query (JString t)
           = (Inr (tool_call_tag @ formatted),
              tool_events calls @ [Generate (Small_model ag) tool_result], st')"
  using assms new_aimodel_fields [OF assms(5)]
  by (simp add: extract_and_dispatch_def small_model_handle_tool_response_def
        generate_response_def)

lemma native_branch_skips_formatter:
  "message_tool_calls r \<noteq> [] \<Longrightarrow>
     \<exists>res calls. respond True ag cl ch st user_query (ResponseDict r) = (res, tool_events calls, st)"
  by (auto simp: respond_def split: prod.splits sum.splits)

text \<open>
  Claim C3 (every tool call is dispatched and formatted). The claim covers a model
  response that carries native \<^verbatim>\<open>tool_calls\<close>. \<^verbatim>\<open>chat\<close> returns only the text
  content of the reply, so \<^verbatim>\<open>handle_user_query\<close> never sees the tool calls: for a model
  that supports tools and answers with one call of \<open>list_directory\<close> and empty content,
  no tool is dispatched, the small model is not run, and the answer is an empty direct
  response.
\<close>

theorem C3_native_tool_calls_not_dispatched:
  "handle_user_query example_agent
     \<lparr>client_chat = (\<lambda>_ _ _. Inr \<lparr>message_content = [],
          message_tool_calls = [(''list_directory'', JObject [(''path'', JString ''.'')])],
          eval_count = 12\<rparr>),
      client_generate = (\<lambda>_ prompt _. Inr prompt)\<rparr>
     (\<lambda>_ _. Inr None)
     \<lparr>memory_file = Missing, write_fault = None\<rparr>
     ''List files in current directory''
   = (direct_response_tag, [],
      \<lparr>memory_file = Snapshot [\<lparr>role = ''system'', content = ''N''\<rparr>,
          \<lparr>role = ''user'', content = ''12''\<rparr>, \<lparr>role = ''assistant'', content = []\<rparr>],
       write_fault = None\<rparr>)"
  by code_simp









end
